theory Spec2Isabelle
  imports Main "HOL-Library.AList"
begin

section \<open>Python values, strings and errors\<close>

text \<open>
  The module \<^verbatim>\<open>localstack/services/internal.py\<close> handles parsed JSON bodies and
  answers with dictionaries. A parsed JSON value is a tree; Python's \<^verbatim>\<open>None\<close> is
  \<open>JNull\<close>, a \<^verbatim>\<open>dict\<close> is an association list in insertion order (the order
  Python iterates in). Numbers are integers here; a float behaves like an
  integer in every test this module makes (only its truthiness is read).
\<close>

datatype json =
    JNull
  | JBool bool
  | JNum int
  | JStr string
  | JArr "json list"
  | JObj "(string \<times> json) list"

text \<open>Python's truth test, as \<^verbatim>\<open>not data\<close> and \<^verbatim>\<open>data or {}\<close> apply it.\<close>

fun truthy :: "json \<Rightarrow> bool" where
  "truthy JNull = False"
| "truthy (JBool b) = b"
| "truthy (JNum n) = (n \<noteq> 0)"
| "truthy (JStr s) = (s \<noteq> [])"
| "truthy (JArr xs) = (xs \<noteq> [])"
| "truthy (JObj kvs) = (kvs \<noteq> [])"

text \<open>
  The exceptions the module can raise. \<open>NotFound\<close> is werkzeug's, with its
  message; \<open>AttributeError\<close> and \<open>TypeError\<close> are what Python raises when a
  method or an item assignment is applied to a value that does not have it;
  \<open>MethodNotAllowed\<close> is the dispatcher's answer to a verb the resource lacks.
\<close>

datatype error = AttributeError | TypeError | NotFound string | MethodNotAllowed

datatype 'a outcome = Returned 'a | Raised error

text \<open>\<^verbatim>\<open>str.startswith\<close>, \<^verbatim>\<open>sub in s\<close>, \<^verbatim>\<open>str.split(sep)\<close> for a one-character separator.\<close>

definition startswith :: "string \<Rightarrow> string \<Rightarrow> bool" where
  "startswith s p = (take (length p) s = p)"

fun contains :: "string \<Rightarrow> string \<Rightarrow> bool" where
  "contains sub [] = (sub = [])"
| "contains sub (c # cs) = (startswith (c # cs) sub \<or> contains sub cs)"

fun str_split :: "string \<Rightarrow> char \<Rightarrow> string list" where
  "str_split [] sep = [[]]"
| "str_split (c # cs) sep =
     (if c = sep then [] # str_split cs sep
      else (case str_split cs sep of
              [] \<Rightarrow> [[c]]
            | w # ws \<Rightarrow> (c # w) # ws))"







section \<open>The object store\<close>

text \<open>
  \<^verbatim>\<open>HealthResource.state\<close> is a dictionary that \<^verbatim>\<open>on_put\<close> updates and of which
  \<^verbatim>\<open>on_get\<close> takes a shallow copy (\<^verbatim>\<open>dict(self.state)\<close>), so nested
  dictionaries are shared between the copy and the original. Dictionaries
  therefore live in a store, at addresses; a value held by a dictionary is
  either a reference to another dictionary or a value that is not a dictionary
  (\<open>Val\<close>: \<^verbatim>\<open>None\<close>, a boolean, a number, a string, a list).
\<close>

datatype hval = Val json | Ref nat

type_synonym dict = "(string \<times> hval) list"

record store =
  cells :: "nat \<Rightarrow> dict"
  fresh :: nat

definition empty_store :: store where
  "empty_store = \<lparr>cells = (\<lambda>_. []), fresh = 0\<rparr>"

text \<open>A new dictionary object (\<^verbatim>\<open>{}\<close>, \<^verbatim>\<open>dict(d)\<close>, a dict literal).\<close>

definition new_dict :: "dict \<Rightarrow> store \<Rightarrow> nat \<times> store" where
  "new_dict d h = (fresh h, h\<lparr>cells := (cells h)(fresh h := d), fresh := Suc (fresh h)\<rparr>)"

text \<open>\<^verbatim>\<open>d[k] = v\<close> on the dictionary at address \<open>a\<close>: a present key keeps its place.\<close>

definition setitem :: "nat \<Rightarrow> string \<Rightarrow> hval \<Rightarrow> store \<Rightarrow> store" where
  "setitem a k v h = h\<lparr>cells := (cells h)(a := AList.update k v (cells h a))\<rparr>"

text \<open>
  Modelled from the spec: \<^verbatim>\<open>merge_recursive\<close> of \<^verbatim>\<open>localstack.utils.collections\<close>
  is not among the sources. The spec calls it a leaf-overwrite merge: nested
  containers are merged key by key, terminal values are replaced wholesale;
  the update is merged \<^emph>\<open>into\<close> the destination, which both callers use as the
  result (\<^verbatim>\<open>on_get\<close> copies the state before merging into the copy, \<^verbatim>\<open>on_put\<close>
  assigns the returned destination to \<^verbatim>\<open>self.state\<close>). So the destination is
  updated in place: for a key of the source that holds a dictionary, the
  destination's node under that key is taken (an empty one is created when
  the key is missing) and the merge descends into it; for any other value
  the destination's entry is set, always with \<^verbatim>\<open>overwrite=True\<close>, and without it
  only where the destination has no entry or \<^verbatim>\<open>None\<close>. The source is only
  read. Merging an entry into a destination that is not a dictionary raises
  (it has no dictionary methods); the store keeps what was written before.
\<close>

fun merge_recursive ::
  "(string \<times> json) list \<Rightarrow> hval \<Rightarrow> bool \<Rightarrow> store \<Rightarrow> error option \<times> store" where
  "merge_recursive [] destination overwrite h = (None, h)"
| "merge_recursive ((key, JObj sub) # rest) destination overwrite h =
     (case destination of
        Val _ \<Rightarrow> (Some AttributeError, h)
      | Ref a \<Rightarrow>
          (let (node, h1) =
                 (case map_of (cells h a) key of
                    Some existing \<Rightarrow> (existing, h)
                  | None \<Rightarrow> (let (n, h') = new_dict [] h
                             in (Ref n, setitem a key (Ref n) h')))
           in case merge_recursive sub node overwrite h1 of
                (Some e, h2) \<Rightarrow> (Some e, h2)
              | (None, h2) \<Rightarrow> merge_recursive rest destination overwrite h2))"
| "merge_recursive ((key, v) # rest) destination overwrite h =
     (case destination of
        Val _ \<Rightarrow> (Some AttributeError, h)
      | Ref a \<Rightarrow>
          (if overwrite \<or> map_of (cells h a) key \<in> {None, Some (Val JNull)}
           then merge_recursive rest destination overwrite (setitem a key (Val v) h)
           else merge_recursive rest destination overwrite h))"

text \<open>
  Reading a dictionary of the store as a JSON tree, as serialising it does.
  The first argument bounds the depth; \<open>None\<close> means the bound was reached.
\<close>

fun reify :: "nat \<Rightarrow> (nat \<Rightarrow> dict) \<Rightarrow> hval \<Rightarrow> json option" where
  "reify fuel c (Val j) = Some j"
| "reify 0 c (Ref a) = None"
| "reify (Suc fuel) c (Ref a) =
     map_option JObj (those (map (\<lambda>(k, v). map_option (Pair k) (reify fuel c v)) (c a)))"

text \<open>
  The document at an address. No chain of references is longer than the number
  of dictionaries allocated, unless the store is cyclic, which no operation
  of this module makes it.
\<close>

definition document :: "store \<Rightarrow> nat \<Rightarrow> json option" where
  "document h a = reify (fresh h) (cells h) (Ref a)"


section \<open>The world of the handlers\<close>

text \<open>
  The service manager (\<^verbatim>\<open>SERVICE_PLUGINS\<close>) is a collaborator: \<open>states\<close> is what
  \<^verbatim>\<open>get_states()\<close> returns, each state by its \<^verbatim>\<open>.value\<close>, and \<open>recheck\<close> is what
  \<^verbatim>\<open>check_all()\<close> does to them.
\<close>

record service_manager =
  states :: "(string \<times> string) list"
  recheck :: "(string \<times> string) list \<Rightarrow> (string \<times> string) list"

definition check_all :: "service_manager \<Rightarrow> service_manager" where
  "check_all sm = sm\<lparr>states := recheck sm (states sm)\<rparr>"

definition get_states :: "service_manager \<Rightarrow> (string \<times> string) list" where
  "get_states sm = states sm"

text \<open>What the handlers do to the outside, in the order they do it.\<close>

datatype event =
    TerminateAllProcessesInDocker
  | ShutdownInfraSet
  | DeprecationNotice string string string

text \<open>
  A \<^verbatim>\<open>HealthResource\<close> instance holds a reference to its state dictionary
  (its service manager is the one of the world). Instances live in a table,
  so that two routes can hold the same instance.
\<close>

record health_resource =
  state :: nat

record world =
  heap :: store
  instances :: "nat \<Rightarrow> health_resource"
  n_instances :: nat
  manager :: service_manager
  events :: "event list"

text \<open>
  A request: its path, its verb, and its body as \<^verbatim>\<open>json.loads\<close> reads it
  (\<open>None\<close> when the body is missing or is not JSON).
  \<^verbatim>\<open>request.get_json(True, True)\<close> forces the parse and is silent on failure:
  it returns \<^verbatim>\<open>None\<close> then.
\<close>

record request =
  path :: string
  verb :: string
  json_body :: "json option"

definition get_json :: "request \<Rightarrow> json" where
  "get_json r = (case json_body r of None \<Rightarrow> JNull | Some j \<Rightarrow> j)"

text \<open>
  What a handler returns: a \<^verbatim>\<open>Response(body, status)\<close>, or a dictionary (by
  reference) that the dispatcher serialises.
\<close>

datatype reply = Response string int | Dict nat


section \<open>HealthResource\<close>

text \<open>\<^verbatim>\<open>__init__\<close>: \<^verbatim>\<open>self.state = {}\<close>.\<close>

definition HealthResource :: "world \<Rightarrow> nat \<times> world" where
  "HealthResource w =
     (let (a, h) = new_dict [] (heap w);
          i = n_instances w
      in (i, w\<lparr>heap := h,
                instances := (instances w)(i := \<lparr>state = a\<rparr>),
                n_instances := Suc i\<rparr>))"

definition on_post :: "nat \<Rightarrow> request \<Rightarrow> world \<Rightarrow> reply outcome \<times> world" where
  "on_post self request w =
     (let data = get_json request in
      if \<not> truthy data then (Returned (Response ''invalid request'' 400), w)
      else (case data of
              JObj items \<Rightarrow>
                (if map_of items ''action'' \<in> {Some (JStr ''kill''), Some (JStr ''restart'')}
                 then (Returned (Response ''ok'' 200),
                       w\<lparr>events := events w @ [TerminateAllProcessesInDocker, ShutdownInfraSet]\<rparr>)
                 else (Returned (Response ''ok'' 200), w))
            | _ \<Rightarrow> (Raised AttributeError, w)))"

text \<open>The dict comprehension over \<^verbatim>\<open>get_states().items()\<close>.\<close>

definition services_of :: "service_manager \<Rightarrow> (string \<times> json) list" where
  "services_of sm = foldl (\<lambda>d (service, v). AList.update service (JStr v) d) [] (get_states sm)"

text \<open>The first argument is \<^verbatim>\<open>constants.VERSION\<close>, a constant outside the sources.\<close>

definition on_get :: "string \<Rightarrow> nat \<Rightarrow> request \<Rightarrow> world \<Rightarrow> reply outcome \<times> world" where
  "on_get version self request w =
     (let reload = contains ''reload'' (path request);
          w1 = (if reload then w\<lparr>manager := check_all (manager w)\<rparr> else w);
          services = services_of (manager w1);
          (result, h1) = new_dict (cells (heap w1) (state (instances w1 self))) (heap w1);
          (raised, h2) = merge_recursive [(''services'', JObj services)] (Ref result) False h1
      in case raised of
           Some e \<Rightarrow> (Raised e, w1\<lparr>heap := h2\<rparr>)
         | None \<Rightarrow> (Returned (Dict result),
                    w1\<lparr>heap := setitem result ''version'' (Val (JStr version)) h2\<rparr>))"

definition on_head :: "nat \<Rightarrow> request \<Rightarrow> world \<Rightarrow> reply outcome \<times> world" where
  "on_head self request w = (Returned (Response ''ok'' 200), w)"

text \<open>
  \<^verbatim>\<open>on_put\<close> first builds \<^verbatim>\<open>state = defaultdict(dict)\<close> from the body. The local
  \<^verbatim>\<open>state\<close> shares nothing with the store, so it is a tree. \<open>getitem_default\<close>
  is \<^verbatim>\<open>state[p]\<close> on the defaultdict: a missing key is created with \<^verbatim>\<open>{}\<close>. The
  variable \<^verbatim>\<open>d\<close> is \<open>None\<close> while it is \<^verbatim>\<open>state\<close> itself and \<open>Some p\<close> once it is
  the object \<^verbatim>\<open>state[p]\<close>.
\<close>

definition getitem_default :: "string \<Rightarrow> (string \<times> json) list \<Rightarrow> (string \<times> json) list" where
  "getitem_default p st = (if map_of st p = None then st @ [(p, JObj [])] else st)"

text \<open>\<^verbatim>\<open>for p in path[:-1]: d = state[p]\<close>\<close>

fun descend ::
  "string list \<Rightarrow> (string \<times> json) list \<Rightarrow> string option \<Rightarrow>
   (string \<times> json) list \<times> string option" where
  "descend [] st d = (st, d)"
| "descend (p # ps) st d = descend ps (getitem_default p st) (Some p)"

text \<open>\<^verbatim>\<open>d[path[-1]] = v\<close>: an item assignment; only a dictionary takes a string key.\<close>

definition assign_last ::
  "string option \<Rightarrow> string \<Rightarrow> json \<Rightarrow> (string \<times> json) list \<Rightarrow> error + (string \<times> json) list" where
  "assign_last d k v st =
     (case d of
        None \<Rightarrow> Inr (AList.update k v st)
      | Some p \<Rightarrow>
          (case map_of st p of
             Some (JObj sub) \<Rightarrow> Inr (AList.update p (JObj (AList.update k v sub)) st)
           | _ \<Rightarrow> Inl TypeError))"

text \<open>\<^verbatim>\<open>for k, v in data.items(): ...\<close>\<close>

fun nested_state ::
  "(string \<times> json) list \<Rightarrow> (string \<times> json) list \<Rightarrow> error + (string \<times> json) list" where
  "nested_state [] st = Inr st"
| "nested_state ((k, v) # items) st =
     (let path = (if CHR '':'' \<in> set k then str_split k (CHR '':'') else [k]);
          (st1, d) = descend (butlast path) st None
      in case assign_last d (last path) v st1 of
           Inl e \<Rightarrow> Inl e
         | Inr st2 \<Rightarrow> nested_state items st2)"

definition on_put :: "nat \<Rightarrow> request \<Rightarrow> world \<Rightarrow> reply outcome \<times> world" where
  "on_put self request w =
     (let data = (if truthy (get_json request) then get_json request else JObj []) in
      case data of
        JObj items \<Rightarrow>
          (case nested_state items [] of
             Inl e \<Rightarrow> (Raised e, w)
           | Inr st \<Rightarrow>
               (let destination = state (instances w self);
                    (raised, h1) = merge_recursive st (Ref destination) True (heap w)
                in case raised of
                     Some e \<Rightarrow> (Raised e, w\<lparr>heap := h1\<rparr>)
                   | None \<Rightarrow>
                       (let (ok, h2) = new_dict [(''status'', Val (JStr ''OK''))] h1
                        in (Returned (Dict ok),
                            w\<lparr>heap := h2,
                              instances := (instances w)(self := \<lparr>state = destination\<rparr>)\<rparr>))))
      | _ \<Rightarrow> (Raised AttributeError, w))"


section \<open>InitScriptsStageResource\<close>







section \<open>Module constants, DeprecatedResource and the routes\<close>

text \<open>
  The names the module imports from files outside the sources
  (\<^verbatim>\<open>constants.VERSION\<close>, \<^verbatim>\<open>constants.INTERNAL_RESOURCE_PATH\<close>,
  \<^verbatim>\<open>http2_server.HTTP_METHODS\<close>, \<^verbatim>\<open>config.DEBUG\<close>) are parameters.
\<close>

record constants =
  VERSION :: string
  INTERNAL_RESOURCE_PATH :: string
  HTTP_METHODS :: "string list"
  DEBUG :: bool










text \<open>
  Modelled from the spec: \<^verbatim>\<open>Router.add\<close> of \<^verbatim>\<open>localstack.http\<close> is not among the
  sources; it registers a resource under a path template. The route table is
  the list of registrations in their order.
\<close>

definition Router_add :: "string \<Rightarrow> 'r \<Rightarrow> (string \<times> 'r) list \<Rightarrow> (string \<times> 'r) list" where
  "Router_add p r routes = routes @ [(p, r)]"

text \<open>\<^verbatim>\<open>LocalstackResources.add\<close> prefixes the path.\<close>

definition add :: "constants \<Rightarrow> string \<Rightarrow> 'r \<Rightarrow> (string \<times> 'r) list \<Rightarrow> (string \<times> 'r) list" where
  "add c p r routes = Router_add (INTERNAL_RESOURCE_PATH c @ p) r routes"






section \<open>LocalstackResourceHandler\<close>

text \<open>
  \<^verbatim>\<open>forward_request\<close> calls the inherited \<^verbatim>\<open>RouterListener.forward_request\<close>, which
  is outside the sources and a parameter here: it returns the response of the
  matched route or raises, \<^verbatim>\<open>NotFound\<close> when no route matches. The listener
  answers with that response, with a bare status code, or with \<^verbatim>\<open>True\<close>, which
  tells the chain of listeners to go on.
\<close>

datatype 'r listener_result = Answer 'r | Status int | PyTrue

definition forward_request ::
  "constants \<Rightarrow> (string \<Rightarrow> string \<Rightarrow> 'd \<Rightarrow> 'hd \<Rightarrow> 'r outcome) \<Rightarrow>
   string \<Rightarrow> string \<Rightarrow> 'd \<Rightarrow> 'hd \<Rightarrow> 'r listener_result outcome" where
  "forward_request c super_forward_request http_method p data headers =
     (case super_forward_request http_method p data headers of
        Returned r \<Rightarrow> Returned (Answer r)
      | Raised (NotFound msg) \<Rightarrow>
          (if \<not> startswith p (INTERNAL_RESOURCE_PATH c @ ''/'') then Returned PyTrue
           else Returned (Status 404))
      | Raised e \<Rightarrow> Raised e)"


section \<open>Concrete inputs\<close>

definition example_constants :: constants where
  "example_constants =
     \<lparr>VERSION = ''1.3.0'', INTERNAL_RESOURCE_PATH = ''/_localstack'',
      HTTP_METHODS = [''GET'', ''POST'', ''PUT'', ''DELETE'', ''HEAD'', ''OPTIONS'', ''PATCH''],
      DEBUG = False\<rparr>"

definition example_manager :: service_manager where
  "example_manager = \<lparr>states = [(''s3'', ''running'')], recheck = (\<lambda>s. s)\<rparr>"

text \<open>The world before any resource exists.\<close>

definition boot :: "service_manager \<Rightarrow> world" where
  "boot sm =
     \<lparr>heap = empty_store, instances = (\<lambda>_. \<lparr>state = 0\<rparr>), n_instances = 0,
      manager = sm, events = []\<rparr>"

definition health_request :: "string \<Rightarrow> json option \<Rightarrow> request" where
  "health_request v b = \<lparr>path = ''/_localstack/health'', verb = v, json_body = b\<rparr>"






section \<open>Strings\<close>

lemma startswith_iff: "startswith s p \<longleftrightarrow> (\<exists>rest. s = p @ rest)"
  unfolding startswith_def
  by (metis append_eq_conv_conj append_take_drop_id)


section \<open>LocalstackResourceHandler.forward_request\<close>

text \<open>
  C2. When the inherited routing raises \<open>NotFound\<close>: a path that is the
  internal resource prefix, a slash and anything after it gets the status
  404; every other path gets \<^verbatim>\<open>True\<close>, the signal to go on with the next
  listener, and never a 404.
\<close>

theorem forward_request_routing_miss:
  assumes "super_forward_request http_method p data headers = Raised (NotFound msg)"
  shows "((\<exists>rest. p = INTERNAL_RESOURCE_PATH c @ ''/'' @ rest) \<longrightarrow>
            forward_request c super_forward_request http_method p data headers
              = Returned (Status 404)) \<and>
         (\<not> (\<exists>rest. p = INTERNAL_RESOURCE_PATH c @ ''/'' @ rest) \<longrightarrow>
            forward_request c super_forward_request http_method p data headers
              = Returned PyTrue)"
  using assms by (simp add: forward_request_def startswith_iff)

theorem forward_request_routing_miss_witness:
  "forward_request example_constants
     (\<lambda>m p d hs. (Raised (NotFound ''Not Found'') :: unit outcome))
     ''GET'' ''/_localstack/nope'' () () = Returned (Status 404) \<and>
   forward_request example_constants
     (\<lambda>m p d hs. (Raised (NotFound ''Not Found'') :: unit outcome))
     ''GET'' ''/my-bucket/key'' () () = Returned PyTrue"
proof -
  let ?sup = "\<lambda>(m::string) (p::string) (d::unit) (hs::unit).
                (Raised (NotFound ''Not Found'') :: unit outcome)"
  have inside: "\<exists>rest. ''/_localstack/nope''
                  = INTERNAL_RESOURCE_PATH example_constants @ ''/'' @ rest"
    by (simp add: example_constants_def)
  have outside: "\<not> (\<exists>rest. ''/my-bucket/key''
                  = INTERNAL_RESOURCE_PATH example_constants @ ''/'' @ rest)"
    by (simp add: example_constants_def)
  have a: "?sup ''GET'' ''/_localstack/nope'' () () = Raised (NotFound ''Not Found'')"
    by simp
  have b: "?sup ''GET'' ''/my-bucket/key'' () () = Raised (NotFound ''Not Found'')"
    by simp
  from forward_request_routing_miss
         [of ?sup "''GET''" "''/_localstack/nope''" "()" "()" "''Not Found''"
             example_constants, OF a]
       forward_request_routing_miss
         [of ?sup "''GET''" "''/my-bucket/key''" "()" "()" "''Not Found''"
             example_constants, OF b]
       inside outside
  show ?thesis by blast
qed


section \<open>HealthResource.on_head and on_post\<close>

text \<open>
  C9, as amended. For every request \<^verbatim>\<open>on_head\<close> returns status 200 with the
  body \<^verbatim>\<open>ok\<close>, and changes nothing.
\<close>

theorem on_head_ok: "on_head self request w = (Returned (Response ''ok'' 200), w)"
  by (simp add: on_head_def)

text \<open>The body of the answer to a HEAD request is not empty.\<close>

theorem on_head_body_counterexample:
  "fst (on_head 0 (health_request ''HEAD'' None) (boot example_manager))
     \<noteq> Returned (Response [] 200)"
  by (simp add: on_head_def)

lemma falsy_iff:
  "\<not> truthy (get_json req) \<longleftrightarrow>
     json_body req \<in> {None, Some JNull, Some (JBool False), Some (JNum 0), Some (JStr []),
                       Some (JArr []), Some (JObj [])}"
proof (cases "json_body req")
  case None
  then show ?thesis by (simp add: get_json_def)
next
  case (Some j)
  then show ?thesis by (cases j) (auto simp: get_json_def)
qed

text \<open>
  C5, as amended. \<^verbatim>\<open>on_post\<close> answers with status 400 exactly when the body is
  missing, is not JSON, or is JSON that Python counts as false (\<^verbatim>\<open>null\<close>,
  \<^verbatim>\<open>false\<close>, \<^verbatim>\<open>0\<close>, the empty string, array or object). For every JSON object
  with at least one member it answers 200 \<^verbatim>\<open>ok\<close>; the shutdown is signalled
  when \<^verbatim>\<open>action\<close> is \<^verbatim>\<open>kill\<close> or \<^verbatim>\<open>restart\<close>, and nothing else happens otherwise.
\<close>

theorem on_post_status:
  "((\<exists>body. fst (on_post self req w) = Returned (Response body 400)) \<longleftrightarrow>
      json_body req \<in> {None, Some JNull, Some (JBool False), Some (JNum 0), Some (JStr []),
                        Some (JArr []), Some (JObj [])}) \<and>
   (\<forall>items. json_body req = Some (JObj items) \<longrightarrow> items \<noteq> [] \<longrightarrow>
      on_post self req w =
        (Returned (Response ''ok'' 200),
         if map_of items ''action'' \<in> {Some (JStr ''kill''), Some (JStr ''restart'')}
         then w\<lparr>events := events w @ [TerminateAllProcessesInDocker, ShutdownInfraSet]\<rparr>
         else w))"
proof (intro conjI allI impI)
  show "(\<exists>body. fst (on_post self req w) = Returned (Response body 400)) \<longleftrightarrow>
      json_body req \<in> {None, Some JNull, Some (JBool False), Some (JNum 0), Some (JStr []),
                        Some (JArr []), Some (JObj [])}"
    unfolding falsy_iff [symmetric]
    by (cases "get_json req") (auto simp: on_post_def Let_def)
next
  fix items
  assume "json_body req = Some (JObj items)" "items \<noteq> []"
  then show "on_post self req w =
        (Returned (Response ''ok'' 200),
         if map_of items ''action'' \<in> {Some (JStr ''kill''), Some (JStr ''restart'')}
         then w\<lparr>events := events w @ [TerminateAllProcessesInDocker, ShutdownInfraSet]\<rparr>
         else w)"
    by (simp add: on_post_def get_json_def Let_def)
qed

theorem on_post_status_witness:
  "on_post 0 (health_request ''POST'' (Some (JObj [(''action'', JStr ''kill'')])))
     (boot example_manager) =
     (Returned (Response ''ok'' 200),
      (boot example_manager)\<lparr>events := [TerminateAllProcessesInDocker, ShutdownInfraSet]\<rparr>) \<and>
   on_post 0 (health_request ''POST'' (Some (JObj [(''hello'', JNum 1)])))
     (boot example_manager) = (Returned (Response ''ok'' 200), boot example_manager) \<and>
   (\<exists>body. fst (on_post 0 (health_request ''POST'' None) (boot example_manager))
             = Returned (Response body 400))"
  using on_post_status [of 0 "health_request ''POST'' (Some (JObj [(''action'', JStr ''kill'')]))"
                           "boot example_manager"]
        on_post_status [of 0 "health_request ''POST'' (Some (JObj [(''hello'', JNum 1)]))"
                           "boot example_manager"]
        on_post_status [of 0 "health_request ''POST'' None" "boot example_manager"]
  by (simp add: health_request_def boot_def)

text \<open>The body \<^verbatim>\<open>{}\<close> is present and is valid JSON, and the answer is 400.\<close>

theorem on_post_empty_object_counterexample:
  "json_body (health_request ''POST'' (Some (JObj []))) = Some (JObj []) \<and>
   fst (on_post 0 (health_request ''POST'' (Some (JObj []))) (boot example_manager))
     = Returned (Response ''invalid request'' 400)"
  by (simp add: on_post_def health_request_def get_json_def)


section \<open>DeprecatedResource\<close>






section \<open>InitScriptsStageResource.on_get\<close>





section \<open>HealthResource.on_put and on_get on concrete bodies\<close>

text \<open>
  C1. The body \<^verbatim>\<open>{"a:b:c": 1}\<close> put on a new resource: the inner loop assigns
  \<^verbatim>\<open>d = state[p]\<close> for each segment but the last, always from the root, so the
  value lands under \<^verbatim>\<open>b.c\<close> and \<^verbatim>\<open>a\<close> is left an empty object. The document is
  not \<^verbatim>\<open>{"a": {"b": {"c": 1}}}\<close>.
\<close>

theorem on_put_three_segments:
  "(let (i, w1) = HealthResource (boot example_manager);
        (r, w2) = on_put i (health_request ''PUT'' (Some (JObj [(''a:b:c'', JNum 1)]))) w1
    in document (heap w2) (state (instances w2 i)))
   = Some (JObj [(''a'', JObj []), (''b'', JObj [(''c'', JNum 1)])])"
  by code_simp

text \<open>
  C4. After \<^verbatim>\<open>{"services:x": "y"}\<close> was put, \<^verbatim>\<open>on_get\<close> merges the live service
  states into the dictionary that the state holds under \<^verbatim>\<open>services\<close>: the
  copy it works on is shallow. The persistent document before and after
  the call differ.
\<close>

theorem on_get_writes_into_state:
  "(let (i, w1) = HealthResource (boot example_manager);
        (r1, w2) = on_put i (health_request ''PUT''
                      (Some (JObj [(''services:x'', JStr ''y'')]))) w1;
        (r2, w3) = on_get ''1.3.0'' i (health_request ''GET'' None) w2
    in (document (heap w2) (state (instances w2 i)),
        document (heap w3) (state (instances w3 i))))
   = (Some (JObj [(''services'', JObj [(''x'', JStr ''y'')])]),
      Some (JObj [(''services'', JObj [(''x'', JStr ''y''), (''s3'', JStr ''running'')])]))"
  by code_simp


section \<open>HealthResource.on_put: merging into the state\<close>

text \<open>What the loop of \<^verbatim>\<open>on_put\<close> builds from the two bodies.\<close>

lemma split_features_initScripts:
  "str_split ''features:initScripts'' (CHR '':'') = [''features'', ''initScripts'']"
  by code_simp

lemma split_features_other:
  "str_split ''features:other'' (CHR '':'') = [''features'', ''other'']"
  by code_simp

lemma nested_features_initScripts:
  "nested_state [(''features:initScripts'', v)] []
     = Inr [(''features'', JObj [(''initScripts'', v)])]"
  by (simp add: split_features_initScripts getitem_default_def assign_last_def)

lemma nested_features_other:
  "nested_state [(''features:other'', v)] [] = Inr [(''features'', JObj [(''other'', v)])]"
  by (simp add: split_features_other getitem_default_def assign_last_def)

text \<open>
  C3. In any world, a new \<^verbatim>\<open>HealthResource\<close> has an empty state. After the
  update \<^verbatim>\<open>{"features:initScripts": true}\<close> the persistent document is
  \<^verbatim>\<open>{"features": {"initScripts": true}}\<close>; after the further update
  \<^verbatim>\<open>{"features:other": false}\<close> it is
  \<^verbatim>\<open>{"features": {"initScripts": true, "other": false}}\<close>: the second update is
  merged into the node under \<^verbatim>\<open>features\<close>, which keeps its first entry.
\<close>

theorem on_put_merges_features:
  "(let (i, w1) = HealthResource w;
        (r1, w2) = on_put i (health_request ''PUT''
                      (Some (JObj [(''features:initScripts'', JBool True)]))) w1;
        (r2, w3) = on_put i (health_request ''PUT''
                      (Some (JObj [(''features:other'', JBool False)]))) w2
    in (document (heap w2) (state (instances w2 i)),
        document (heap w3) (state (instances w3 i))))
   = (Some (JObj [(''features'', JObj [(''initScripts'', JBool True)])]),
      Some (JObj [(''features'', JObj [(''initScripts'', JBool True),
                                      (''other'', JBool False)])]))"
  by (simp add: HealthResource_def on_put_def health_request_def get_json_def
        nested_features_initScripts nested_features_other
        new_dict_def setitem_def document_def Let_def
      del: nested_state.simps)


section \<open>HealthResource.on_get after on_put\<close>

























section \<open>The deprecated route and the canonical route\<close>
















end
